theory Spec2Isabelle
  imports Complex_Main "HOL-Library.AList"
begin

section \<open>Cache size report: \<open>format_size\<close>\<close>

text \<open>
  \<open>format_size\<close> of \<open>local_llm/check_cache_sizes.py\<close> receives a byte count (a Python
  \<open>int\<close>), compares it with \<open>1024.0\<close> and divides it by \<open>1024.0\<close> until it is below that
  bound or the five units are used up. The quotients are Python floats. For a count of
  magnitude below \<open>2 ^ 53\<close> the conversion to a double and every division by the power of
  two \<open>1024.0\<close> are exact, so the floats are the rationals written here; the theorems about
  \<open>format_size\<close> keep to that range.
\<close>

definition digit_char :: "nat \<Rightarrow> char" where
  "digit_char d = ''0123456789'' ! d"

text \<open>The decimal digits of a natural number, as \<open>str\<close> prints them.\<close>

fun str_nat :: "nat \<Rightarrow> string" where
  "str_nat n = (if n < 10 then [digit_char n] else str_nat (n div 10) @ [digit_char (n mod 10)])"

declare str_nat.simps [simp del]







section \<open>Exceptions\<close>

text \<open>
  The exceptions the scripts meet. \<open>Exception\<close> is what the scripts raise themselves;
  \<open>AttributeError\<close> and \<open>TypeError\<close> are raised by the interpreter on a value of the wrong
  kind; \<open>ExternalError\<close> stands for whatever a collaborator (browser driver, model provider,
  file system) raises. All of them are caught by \<open>except Exception\<close>.
\<close>

datatype exn =
    Exception string
  | AttributeError string
  | TypeError string
  | ExternalError string

section \<open>Snapshot filtering: \<open>filter_elements\<close>\<close>

text \<open>
  \<open>filter_elements\<close> of \<open>google_search/demo1_sdk/main.py\<close> works on Python dicts and lists,
  which are mutable objects shared by reference. They live in a store: an object is
  addressed by its index, and allocation appends. A dict is its items in insertion order.
\<close>

type_synonym addr = nat

datatype pyval = PNone | PBool bool | PInt int | PStr string | PRef addr

datatype pyobj = PDict "(string \<times> pyval) list" | PList "pyval list"

type_synonym heap = "pyobj list"

text \<open>\<open>d.get(k, dflt)\<close> on the items of a dict.\<close>

definition py_get :: "(string \<times> pyval) list \<Rightarrow> string \<Rightarrow> pyval \<Rightarrow> pyval" where
  "py_get d k dflt = (case map_of d k of None \<Rightarrow> dflt | Some v \<Rightarrow> v)"

text \<open>
  The items that \<open>len\<close> and a comprehension see in a value: those of a list, the keys of a
  dict, the characters of a string; \<open>len\<close> raises \<open>TypeError\<close> on anything else.
\<close>

definition py_iter :: "heap \<Rightarrow> pyval \<Rightarrow> exn + pyval list" where
  "py_iter h v =
     (case v of
        PRef a \<Rightarrow>
          (if a < length h then
             (case h ! a of
                PList xs \<Rightarrow> Inr xs
              | PDict e \<Rightarrow> Inr (map (\<lambda>kv. PStr (fst kv)) e))
           else Inl (TypeError ''object has no len()''))
      | PStr s \<Rightarrow> Inr (map (\<lambda>c. PStr [c]) s)
      | _ \<Rightarrow> Inl (TypeError ''object has no len()''))"

text \<open>\<open>snapshot_data.get('elements', [])\<close>, as the items iterated over.\<close>

definition snapshot_elements :: "heap \<Rightarrow> (string \<times> pyval) list \<Rightarrow> exn + pyval list" where
  "snapshot_elements h d =
     (case map_of d ''elements'' of None \<Rightarrow> Inr [] | Some v \<Rightarrow> py_iter h v)"

text \<open>\<open>elem.get('role')\<close>: only a dict has \<open>get\<close>.\<close>

definition elem_role :: "heap \<Rightarrow> pyval \<Rightarrow> exn + pyval" where
  "elem_role h e =
     (case e of
        PRef b \<Rightarrow>
          (if b < length h then
             (case h ! b of
                PDict dd \<Rightarrow> Inr (py_get dd ''role'' PNone)
              | PList xs \<Rightarrow> Inl (AttributeError ''list object has no attribute get''))
           else Inl (AttributeError ''object has no attribute get''))
      | _ \<Rightarrow> Inl (AttributeError ''object has no attribute get''))"

text \<open>
  \<open>role in exclude_roles\<close> for a list of strings: \<open>in\<close> compares with \<open>==\<close>, and only a
  string is equal to a string.
\<close>

definition role_in :: "pyval \<Rightarrow> string list \<Rightarrow> bool" where
  "role_in r exclude_roles = (case r of PStr s \<Rightarrow> s \<in> set exclude_roles | _ \<Rightarrow> False)"

text \<open>The list comprehension; the first element without \<open>get\<close> ends it with the error.\<close>

fun keep_elements :: "heap \<Rightarrow> string list \<Rightarrow> pyval list \<Rightarrow> exn + pyval list" where
  "keep_elements h exclude_roles [] = Inr []"
| "keep_elements h exclude_roles (elem # rest) =
     (case elem_role h elem of
        Inl err \<Rightarrow> Inl err
      | Inr r \<Rightarrow>
          (case keep_elements h exclude_roles rest of
             Inl err \<Rightarrow> Inl err
           | Inr kept \<Rightarrow> Inr (if role_in r exclude_roles then kept else elem # kept)))"

text \<open>
  \<open>filter_elements\<close>: \<open>snapshot_data.copy()\<close> allocates a dict with the same items, the
  comprehension allocates the new list, and the assignment to \<open>filtered_data['elements']\<close>
  updates the copy in place. A list also has \<open>copy\<close> but no \<open>get\<close>. The console line is
  left out.
\<close>

definition filter_elements :: "heap \<Rightarrow> pyval \<Rightarrow> string list \<Rightarrow> (exn + pyval) \<times> heap" where
  "filter_elements h snapshot_data exclude_roles =
     (case snapshot_data of
        PRef a \<Rightarrow>
          (if a < length h then
             (case h ! a of
                PDict d \<Rightarrow>
                  (let filtered_data = length h;
                       h1 = h @ [PDict d]
                   in case snapshot_elements h1 d of
                        Inl err \<Rightarrow> (Inl err, h1)
                      | Inr elems \<Rightarrow>
                          (case keep_elements h1 exclude_roles elems of
                             Inl err \<Rightarrow> (Inl err, h1)
                           | Inr filtered_elements \<Rightarrow>
                               (let l = length h1;
                                    h2 = h1 @ [PList filtered_elements];
                                    h3 = h2[filtered_data :=
                                            PDict (AList.update ''elements'' (PRef l) d)]
                                in (Inr (PRef filtered_data), h3))))
              | PList xs \<Rightarrow>
                  (Inl (AttributeError ''list object has no attribute get''), h @ [PList xs]))
           else (Inl (AttributeError ''object has no attribute copy''), h))
      | _ \<Rightarrow> (Inl (AttributeError ''object has no attribute copy''), h))"

text \<open>
  The vocabulary of the property: a reference to a dict; the elements of a snapshot whose
  \<open>elements\<close> entry is absent or a list; an element whose \<open>role\<close> is one of the excluded
  strings.
\<close>

definition is_dict_ref :: "heap \<Rightarrow> pyval \<Rightarrow> bool" where
  "is_dict_ref h v =
     (case v of
        PRef b \<Rightarrow> b < length h \<and> (case h ! b of PDict dd \<Rightarrow> True | PList xs \<Rightarrow> False)
      | _ \<Rightarrow> False)"

definition input_elements :: "heap \<Rightarrow> (string \<times> pyval) list \<Rightarrow> pyval list option" where
  "input_elements h d =
     (case map_of d ''elements'' of
        None \<Rightarrow> Some []
      | Some (PRef l) \<Rightarrow>
          (if l < length h then
             (case h ! l of PList xs \<Rightarrow> Some xs | PDict e \<Rightarrow> None)
           else None)
      | Some _ \<Rightarrow> None)"

definition excluded_role :: "heap \<Rightarrow> string list \<Rightarrow> pyval \<Rightarrow> bool" where
  "excluded_role h exclude_roles e =
     (case e of
        PRef b \<Rightarrow>
          (case h ! b of
             PDict dd \<Rightarrow>
               (case map_of dd ''role'' of
                  Some (PStr s) \<Rightarrow> s \<in> set exclude_roles
                | _ \<Rightarrow> False)
           | PList xs \<Rightarrow> False)
      | _ \<Rightarrow> False)"

text \<open>A snapshot of three elements, used to run \<open>filter_elements\<close>.\<close>

definition demo_heap :: heap where
  "demo_heap =
     [PDict [(''url'', PStr ''https://www.google.com''), (''elements'', PRef 1)],
      PList [PRef 2, PRef 3, PRef 4],
      PDict [(''id'', PInt 1), (''role'', PStr ''img'')],
      PDict [(''id'', PInt 2), (''role'', PStr ''combobox'')],
      PDict [(''id'', PInt 3)]]"

section \<open>Model responses as JSON values\<close>

text \<open>
  What \<open>json.loads\<close> returns: \<open>None\<close>, a bool, an int, a float (the literals \<open>NaN\<close> and
  \<open>Infinity\<close> are accepted), a string, a list, or a dict with its items in order.
\<close>

datatype pyfloat = Finite rat | PosInf | NegInf | NaN

datatype json =
    JNull
  | JBool bool
  | JInt int
  | JFloat pyfloat
  | JStr string
  | JArr "json list"
  | JObj "(string \<times> json) list"

text \<open>Truth value of a Python value, as \<open>or\<close>, \<open>not\<close> and \<open>if\<close> take it.\<close>

fun truthy :: "json \<Rightarrow> bool" where
  "truthy JNull = False"
| "truthy (JBool b) = b"
| "truthy (JInt n) = (n \<noteq> 0)"
| "truthy (JFloat f) = (f \<noteq> Finite 0)"
| "truthy (JStr s) = (s \<noteq> [])"
| "truthy (JArr xs) = (xs \<noteq> [])"
| "truthy (JObj d) = (d \<noteq> [])"

text \<open>\<open>v.get(k, dflt)\<close>: only a dict has the method; \<open>v.get(k)\<close> has the default \<open>None\<close>.\<close>

definition get_method :: "json \<Rightarrow> string \<Rightarrow> json \<Rightarrow> exn + json" where
  "get_method v k dflt =
     (case v of
        JObj d \<Rightarrow> Inr (case map_of d k of None \<Rightarrow> dflt | Some x \<Rightarrow> x)
      | _ \<Rightarrow> Inl (AttributeError ''object has no attribute get''))"

section \<open>The browser, the console and the usage tracker\<close>

text \<open>
  The requests the scripts send to the browser driver (Playwright, and \<open>click_rect\<close> of the
  SDK). Durations are in milliseconds. \<open>LocatorFirstClick s\<close> is
  \<open>page.locator(s).first.click()\<close>. \<open>page.mouse.click(x, y, click_count=1)\<close> passes the
  default click count, so it is the request \<open>MouseClick x y\<close> too.
\<close>

datatype action =
    LaunchBrowser
  | NewPage nat nat
  | Goto string
  | WaitForLoadState string
  | Sleep nat
  | Screenshot string
  | MouseClick json json
  | KeyboardType string nat
  | KeyboardPress string
  | LocatorFirstClick string
  | SetViewportSize nat nat
  | ClickRect json
  | BrowserClose

text \<open>
  What a run leaves behind, in order: the requests sent to the driver and the diagnostics
  printed on a decision branch (a message is kept up to its first interpolated value, without
  its leading symbol; progress messages are not kept).
\<close>

datatype event = Invoked action | Printed string

datatype usage_record = UsageRecord string int int

text \<open>
  The state of a run: the browser (of any type \<open>'e\<close>), the events so far, the interactions
  logged with the token tracker, and the number of calls made to the model provider.
\<close>

record 'e world =
  page :: 'e
  events :: "event list"
  ledger :: "usage_record list"
  api_calls :: nat

text \<open>
  The driver is a parameter: \<open>perform\<close> answers a request in a browser state with the new
  state and the exception raised, if any; \<open>page_url\<close> reads \<open>page.url\<close>.
\<close>

record 'e driver =
  perform :: "action \<Rightarrow> 'e \<Rightarrow> exn option \<times> 'e"
  page_url :: "'e \<Rightarrow> string"

text \<open>A step of a script either returns a value or raises, and leaves a state.\<close>

type_synonym ('e, 'a) prog = "'e world \<Rightarrow> (exn + 'a) \<times> 'e world"

definition ret :: "'a \<Rightarrow> ('e, 'a) prog" where
  "ret a w = (Inr a, w)"

definition raise :: "exn \<Rightarrow> ('e, 'a) prog" where
  "raise e w = (Inl e, w)"

definition lift :: "exn + 'a \<Rightarrow> ('e, 'a) prog" where
  "lift r w = (r, w)"

definition seq :: "('e, 'a) prog \<Rightarrow> ('a \<Rightarrow> ('e, 'b) prog) \<Rightarrow> ('e, 'b) prog" where
  "seq m f w = (case m w of (Inl e, w') \<Rightarrow> (Inl e, w') | (Inr a, w') \<Rightarrow> f a w')"

primrec steps :: "('e, unit) prog list \<Rightarrow> ('e, unit) prog" where
  "steps [] = ret ()"
| "steps (p # ps) = seq p (\<lambda>_. steps ps)"

text \<open>\<open>try: body except Exception as e: handler\<close>.\<close>

definition try_except :: "('e, 'a) prog \<Rightarrow> (exn \<Rightarrow> ('e, 'a) prog) \<Rightarrow> ('e, 'a) prog" where
  "try_except body handler w =
     (case body w of (Inl e, w') \<Rightarrow> handler e w' | (Inr a, w') \<Rightarrow> (Inr a, w'))"

definition act :: "'e driver \<Rightarrow> action \<Rightarrow> ('e, unit) prog" where
  "act drv a w =
     (case perform drv a (page w) of
        (r, p') \<Rightarrow>
          (let w' = w\<lparr>page := p', events := events w @ [Invoked a]\<rparr>
           in case r of None \<Rightarrow> (Inr (), w') | Some e \<Rightarrow> (Inl e, w')))"

definition say :: "string \<Rightarrow> ('e, unit) prog" where
  "say s w = (Inr (), w\<lparr>events := events w @ [Printed s]\<rparr>)"

definition current_url :: "'e driver \<Rightarrow> ('e, string) prog" where
  "current_url drv w = (Inr (page_url drv (page w)), w)"

text \<open>
  Modelled from the spec: \<open>TokenTracker.log_interaction\<close> (\<open>shared/token_tracker.py\<close> is not
  among the sources) appends one usage record, made of the scene name and the two token
  counts, to the ledger.
\<close>

definition log_interaction :: "string \<Rightarrow> int \<Rightarrow> int \<Rightarrow> 'e world \<Rightarrow> 'e world" where
  "log_interaction scene prompt_tokens completion_tokens w =
     w\<lparr>ledger := ledger w @ [UsageRecord scene prompt_tokens completion_tokens]\<rparr>"

section \<open>The locator call: \<open>VisionAgent.analyze_screenshot\<close>\<close>

text \<open>
  The collaborators of \<open>VisionAgent\<close> are parameters. \<open>encode_image\<close> reads and encodes the
  screenshot file or raises. \<open>create k\<close> is the \<open>k\<close>-th call of
  \<open>client.chat.completions.create\<close> of the run: it raises or returns a response, of which
  the script reads the usage counts, the content of the first choice, its refusal and its
  finish reason. \<open>loads\<close> is \<open>json.loads\<close>: the parsed value, or the text of the
  \<open>JSONDecodeError\<close>.
\<close>

record request =
  req_model :: string
  req_prompt :: string
  req_image :: string

record response =
  usage_prompt_tokens :: int
  usage_completion_tokens :: int
  content :: "string option"
  refusal :: "string option"
  finish_reason :: string

record vision_agent =
  encode_image :: "string \<Rightarrow> exn + string"
  create :: "nat \<Rightarrow> request \<Rightarrow> exn + response"
  loads :: "string \<Rightarrow> string + json"
  agent_model :: string

definition newline :: string where
  "newline = [CHR 0x0A]"

definition full_prompt :: "string \<Rightarrow> nat \<Rightarrow> nat \<Rightarrow> string" where
  "full_prompt task_prompt viewport_width viewport_height =
     task_prompt @ newline @ newline @
     ''IMPORTANT: Respond ONLY with valid JSON. No markdown, no explanation outside the JSON.'' @
     newline @ ''The viewport size is '' @ str_nat viewport_width @ ''x'' @
     str_nat viewport_height @ ''. Provide coordinates relative to this viewport.''"

definition empty_response_msg :: "response \<Rightarrow> string" where
  "empty_response_msg r =
     ''Vision LLM returned empty response.'' @ newline @
     ''Finish reason: '' @ finish_reason r @ newline @
     (case refusal r of
        None \<Rightarrow> []
      | Some s \<Rightarrow> if s = [] then [] else ''Refusal: '' @ s @ newline)"

definition analyze_screenshot ::
  "vision_agent \<Rightarrow> string \<Rightarrow> string \<Rightarrow> string \<Rightarrow> nat \<Rightarrow> nat \<Rightarrow> ('e, json) prog" where
  "analyze_screenshot ag image_path task_prompt scene_name viewport_width viewport_height w =
     (case encode_image ag image_path of
        Inl e \<Rightarrow> (Inl e, w)
      | Inr base64_image \<Rightarrow>
          (let w1 = w\<lparr>api_calls := Suc (api_calls w)\<rparr>
           in case create ag (api_calls w)
                     \<lparr>req_model = agent_model ag,
                      req_prompt = full_prompt task_prompt viewport_width viewport_height,
                      req_image = base64_image\<rparr> of
                Inl e \<Rightarrow> (Inl e, w1)
              | Inr rsp \<Rightarrow>
                  (let w2 = log_interaction scene_name (usage_prompt_tokens rsp)
                              (usage_completion_tokens rsp) w1
                   in case content rsp of
                        None \<Rightarrow>
                          seq (say ''ERROR: Vision LLM returned empty response'')
                            (\<lambda>_. ret (JObj [(''error'', JStr (empty_response_msg rsp)),
                                             (''coordinates'', JNull),
                                             (''reasoning'', JStr ''LLM returned empty response'')]))
                            w2
                      | Some message_content \<Rightarrow>
                          (case loads ag message_content of
                             Inr result \<Rightarrow> (Inr result, w2)
                           | Inl e \<Rightarrow>
                               seq (say ''ERROR: Failed to parse JSON response'')
                                 (\<lambda>_. ret (JObj [(''error'', JStr (''JSON parse error: '' @ e)),
                                                  (''coordinates'', JNull),
                                                  (''reasoning'',
                                                   JStr ''Failed to parse LLM response'')]))
                                 w2))))"

section \<open>The scenes of \<open>amazon_shopping/demo2_vision_llm/main.py\<close>\<close>



text \<open>
  The three lines that scenes 3 and 4, and both vision scenes of the Google script, repeat:
  \<open>coords = result.get('coordinates') or {}\<close>, then \<open>x\<close> and \<open>y\<close> are \<open>coords.get(...)\<close> if
  \<open>coords\<close> is a dict and \<open>None\<close> otherwise.
\<close>

definition coords_xy :: "json \<Rightarrow> exn + json \<times> json" where
  "coords_xy result =
     (case get_method result ''coordinates'' JNull of
        Inl e \<Rightarrow> Inl e
      | Inr c \<Rightarrow>
          (let coords = (if truthy c then c else JObj [])
           in case coords of
                JObj d \<Rightarrow>
                  Inr (case map_of d ''x'' of None \<Rightarrow> JNull | Some x \<Rightarrow> x,
                       case map_of d ''y'' of None \<Rightarrow> JNull | Some y \<Rightarrow> y)
              | _ \<Rightarrow> Inr (JNull, JNull)))"

text \<open>Scene 1 after the locator call (lines 85 to 96): no \<open>or {}\<close> and no type test.\<close>

definition amazon_scene1_act :: "'e driver \<Rightarrow> json \<Rightarrow> ('e, unit) prog" where
  "amazon_scene1_act drv result =
     seq (lift (get_method result ''coordinates'' (JObj []))) (\<lambda>coords.
     seq (lift (get_method coords ''x'' JNull)) (\<lambda>x.
     seq (lift (get_method coords ''y'' JNull)) (\<lambda>y.
       if x = JNull \<or> y = JNull then
         seq (say ''ERROR: Vision LLM could not find search bar'')
           (\<lambda>_. raise (Exception ''Could not find search bar coordinates''))
       else steps [act drv (MouseClick x y), act drv (Sleep 1000)])))"



definition product_link_selector :: string where
  "product_link_selector = ''a[href*='/dp/'], a[href*='/gp/product/']''"

text \<open>Scene 3 after the locator call (lines 149 to 197).\<close>

definition amazon_scene3_act :: "'e driver \<Rightarrow> json \<Rightarrow> ('e, unit) prog" where
  "amazon_scene3_act drv result =
     seq (lift (coords_xy result)) (\<lambda>(x, y).
       if x = JNull \<or> y = JNull then
         seq (say ''ERROR: Vision LLM could not find product'')
           (\<lambda>_. raise (Exception ''Could not find product coordinates''))
       else
         seq (current_url drv) (\<lambda>url_before.
         seq (steps [act drv (MouseClick x y), act drv (Sleep 5000)]) (\<lambda>_.
         seq (current_url drv) (\<lambda>url_after.
           if url_before = url_after then
             seq (steps [say ''WARNING: URL did not change - click may have failed'',
                         act drv (MouseClick x y),
                         act drv (Sleep 3000)]) (\<lambda>_.
             seq (current_url drv) (\<lambda>url_after.
               if url_before = url_after then
                 seq (say ''ERROR: Navigation failed - still on search results page'') (\<lambda>_.
                 try_except
                   (steps [act drv (LocatorFirstClick product_link_selector),
                           act drv (Sleep 5000)])
                   (\<lambda>e. seq (say ''Fallback click failed'')
                           (\<lambda>_. raise (Exception ''Could not navigate to product page''))))
               else ret ()))
           else ret ()))))"








section \<open>Scene 3 of \<open>google_search/demo2_vision/main.py\<close>\<close>

text \<open>Scene 3 after the locator call (lines 152 to 189): there is no selector fallback.\<close>

definition google_scene3_act :: "'e driver \<Rightarrow> json \<Rightarrow> ('e, unit) prog" where
  "google_scene3_act drv result =
     seq (lift (coords_xy result)) (\<lambda>(x, y).
       if x = JNull \<or> y = JNull then
         seq (say ''ERROR: Vision LLM could not find search result'')
           (\<lambda>_. raise (Exception ''Could not find search result coordinates''))
       else
         seq (current_url drv) (\<lambda>url_before.
         seq (steps [act drv (MouseClick x y), act drv (Sleep 3000)]) (\<lambda>_.
         seq (current_url drv) (\<lambda>url_after.
           if url_before = url_after then
             seq (steps [say ''WARNING: URL did not change - click may have failed'',
                         act drv (MouseClick x y),
                         act drv (Sleep 3000)]) (\<lambda>_.
             seq (current_url drv) (\<lambda>url_after.
               if url_before = url_after then
                 seq (say ''ERROR: Navigation failed - still on search results page'')
                   (\<lambda>_. raise (Exception ''Could not navigate to result page''))
               else ret ()))
           else say ''Successfully navigated to result page''))))"

section \<open>The bbox test of \<open>google_search/demo1_sdk/main.py\<close>\<close>

text \<open>
  Lines 137 to 145 (and again 237 to 251): \<open>main\<close> returns if
  \<open>not result.get('bbox') or result['bbox'].get('x') is None\<close>, and calls \<open>click_rect\<close> on the
  bbox otherwise. The result tells whether the script went on.
\<close>

definition sdk_bbox_act :: "'e driver \<Rightarrow> json \<Rightarrow> ('e, bool) prog" where
  "sdk_bbox_act drv result =
     seq (lift (get_method result ''bbox'' JNull)) (\<lambda>bbox.
       if \<not> truthy bbox then
         seq (say ''ERROR: LLM did not return valid coordinates'') (\<lambda>_. ret False)
       else
         seq (lift (get_method bbox ''x'' JNull)) (\<lambda>x.
           if x = JNull then
             seq (say ''ERROR: LLM did not return valid coordinates'') (\<lambda>_. ret False)
           else seq (act drv (ClickRect bbox)) (\<lambda>_. ret True)))"

section \<open>Vocabulary of the properties\<close>

text \<open>
  A response has usable coordinates when it is a dict whose \<open>coordinates\<close> entry is a dict
  with entries \<open>x\<close> and \<open>y\<close> that are not \<open>None\<close>; in every other case (the entry is missing,
  null or not a dict, or \<open>x\<close> or \<open>y\<close> is missing or null) it has none.
\<close>

definition usable_coordinates :: "json \<Rightarrow> bool" where
  "usable_coordinates result =
     (case result of
        JObj d \<Rightarrow>
          (case map_of d ''coordinates'' of
             Some (JObj c) \<Rightarrow>
               (case map_of c ''x'' of
                  None \<Rightarrow> False
                | Some x \<Rightarrow>
                    x \<noteq> JNull \<and>
                    (case map_of c ''y'' of None \<Rightarrow> False | Some y \<Rightarrow> y \<noteq> JNull))
           | _ \<Rightarrow> False)
      | _ \<Rightarrow> False)"

text \<open>The requests sent to the driver, in order, among the events of a run.\<close>

fun invoked :: "event list \<Rightarrow> action list" where
  "invoked [] = []"
| "invoked (Invoked a # evs) = a # invoked evs"
| "invoked (Printed s # evs) = invoked evs"


section \<open>Concrete collaborators\<close>

text \<open>
  Browsers whose state is the URL of the page. In \<open>still_driver\<close> no request changes the
  URL. In \<open>selector_driver\<close> only a click through a selector navigates. In \<open>stuck_driver\<close>
  that click raises. \<open>strict_driver\<close> raises on a pointer click whose coordinates are not
  numbers.
\<close>

definition still_driver :: "string driver" where
  "still_driver = \<lparr>perform = (\<lambda>a p. (None, p)), page_url = (\<lambda>p. p)\<rparr>"



definition is_number :: "json \<Rightarrow> bool" where
  "is_number v = (case v of JInt n \<Rightarrow> True | JFloat f \<Rightarrow> True | _ \<Rightarrow> False)"

definition strict_driver :: "string driver" where
  "strict_driver =
     \<lparr>perform = (\<lambda>a p. case a of
                    MouseClick x y \<Rightarrow>
                      if is_number x \<and> is_number y then (None, p)
                      else (Some (ExternalError ''mouse.click: expected float''), p)
                  | _ \<Rightarrow> (None, p)),
      page_url = (\<lambda>p. p)\<rparr>"

definition results_page :: "string world" where
  "results_page =
     \<lparr>page = ''https://www.amazon.com/s?k=Christmas+gift'',
      events = [], ledger = [], api_calls = 0\<rparr>"

text \<open>The decision of scenario A, one with a null coordinate, and one with a string.\<close>

definition decision_a :: json where
  "decision_a = JObj [(''coordinates'', JObj [(''x'', JInt 960), (''y'', JInt 120)])]"

definition decision_null :: json where
  "decision_null = JObj [(''coordinates'', JObj [(''x'', JNull), (''y'', JInt 200)])]"

definition decision_text :: json where
  "decision_text = JObj [(''coordinates'', JObj [(''x'', JStr ''left''), (''y'', JInt 200)])]"


definition content_a :: string where
  \<open>content_a = ''{"coordinates": {"x": 960, "y": 120}}''\<close>

definition loads_a :: "string \<Rightarrow> string + json" where
  "loads_a s =
     (if s = content_a then Inr decision_a
      else Inl ''Expecting value: line 1 column 1 (char 0)'')"


definition failing_agent :: vision_agent where
  "failing_agent =
     \<lparr>encode_image = (\<lambda>p. Inr ''iVBORw0KGgo=''),
      create = (\<lambda>k r. Inl (ExternalError ''APIConnectionError: Connection error.'')),
      loads = loads_a,
      agent_model = ''gpt-4o''\<rparr>"





section \<open>Properties of \<open>format_size\<close>\<close>





section \<open>Properties of \<open>filter_elements\<close>\<close>

lemma elem_role_dict:
  "is_dict_ref h e \<Longrightarrow>
   \<exists>r. elem_role (h @ g) e = Inr r \<and> role_in r ex = excluded_role h ex e"
  by (auto simp: is_dict_ref_def elem_role_def role_in_def excluded_role_def py_get_def
      nth_append split: pyval.splits pyobj.splits option.splits)

lemma keep_elements_filter:
  "\<forall>e \<in> set xs. is_dict_ref h e \<Longrightarrow>
   keep_elements (h @ g) ex xs = Inr (filter (\<lambda>e. \<not> excluded_role h ex e) xs)"
proof (induction xs)
  case Nil
  show ?case by simp
next
  case (Cons e xs)
  then have d: "is_dict_ref h e" and rest: "\<forall>e \<in> set xs. is_dict_ref h e" by simp_all
  from elem_role_dict [OF d, of g ex] obtain r where
    r: "elem_role (h @ g) e = Inr r" "role_in r ex = excluded_role h ex e" by blast
  show ?case using Cons.IH [OF rest] r by simp
qed

lemma snapshot_elements_input:
  "input_elements h d = Some xs \<Longrightarrow> snapshot_elements (h @ g) d = Inr xs"
  by (auto simp: input_elements_def snapshot_elements_def py_iter_def nth_append
      split: option.splits pyval.splits pyobj.splits if_splits)

lemma map_of_update_other:
  "k \<noteq> k' \<Longrightarrow> map_of (AList.update k' v d) k = map_of d k"
  by (simp add: update_conv')

text \<open>
  Claim C9. Let \<open>snapshot_data\<close> be a dict whose \<open>elements\<close> entry, if there is one, is a
  list of dicts. Then \<open>filter_elements\<close> returns a newly allocated dict; its \<open>elements\<close>
  entry is a newly allocated list holding exactly the input elements whose \<open>role\<close> is not
  in the exclusion list, in their original order; every other key has the value it had in
  the input; and every object that existed before the call, the input dict and its
  \<open>elements\<close> list among them, is unchanged.
\<close>

theorem filter_elements_frame:
  assumes "a < length h" and "h ! a = PDict d"
    and "input_elements h d = Some xs"
    and "\<forall>e \<in> set xs. is_dict_ref h e"
  shows "\<exists>h' r l' d'.
      filter_elements h (PRef a) ex = (Inr (PRef r), h') \<and>
      take (length h) h' = h \<and>
      length h \<le> r \<and> r < length h' \<and> h' ! r = PDict d' \<and>
      map_of d' ''elements'' = Some (PRef l') \<and>
      length h \<le> l' \<and> l' < length h' \<and>
      h' ! l' = PList (filter (\<lambda>e. \<not> excluded_role h ex e) xs) \<and>
      (\<forall>k. k \<noteq> ''elements'' \<longrightarrow> map_of d' k = map_of d k)"
proof -
  let ?kept = "filter (\<lambda>e. \<not> excluded_role h ex e) xs"
  let ?d' = "AList.update ''elements'' (PRef (Suc (length h))) d"
  let ?h' = "(h @ [PDict d] @ [PList ?kept])[length h := PDict ?d']"
  have s: "snapshot_elements (h @ [PDict d]) d = Inr xs"
    using snapshot_elements_input [OF assms(3)] .
  have k: "keep_elements (h @ [PDict d]) ex xs = Inr ?kept"
    using keep_elements_filter [OF assms(4)] .
  have run: "filter_elements h (PRef a) ex = (Inr (PRef (length h)), ?h')"
    using assms(1,2) s k by (simp add: filter_elements_def Let_def)
  have "take (length h) ?h' = h" by simp
  moreover have "?h' ! length h = PDict ?d'" by (simp add: nth_list_update)
  moreover have "map_of ?d' ''elements'' = Some (PRef (Suc (length h)))"
    by (simp add: update_conv')
  moreover have "?h' ! Suc (length h) = PList ?kept"
    by (simp add: nth_list_update nth_append)
  moreover have "\<forall>k. k \<noteq> ''elements'' \<longrightarrow> map_of ?d' k = map_of d k"
    by (simp add: map_of_update_other)
  ultimately show ?thesis using run by (intro exI [of _ ?h'] exI [of _ "length h"]
      exI [of _ "Suc (length h)"] exI [of _ ?d']) simp
qed

theorem filter_elements_frame_witness:
  "0 < length demo_heap \<and>
   demo_heap ! 0 = PDict [(''url'', PStr ''https://www.google.com''), (''elements'', PRef 1)] \<and>
   input_elements demo_heap
     [(''url'', PStr ''https://www.google.com''), (''elements'', PRef 1)] =
     Some [PRef 2, PRef 3, PRef 4] \<and>
   is_dict_ref demo_heap (PRef 2) \<and> is_dict_ref demo_heap (PRef 3) \<and>
   is_dict_ref demo_heap (PRef 4) \<and>
   (\<exists>h' r l' d'.
      filter_elements demo_heap (PRef 0) [''img'', ''button'', ''link''] = (Inr (PRef r), h') \<and>
      take (length demo_heap) h' = demo_heap \<and>
      length demo_heap \<le> r \<and> r < length h' \<and> h' ! r = PDict d' \<and>
      map_of d' ''elements'' = Some (PRef l') \<and>
      length demo_heap \<le> l' \<and> l' < length h' \<and>
      h' ! l' = PList [PRef 3, PRef 4] \<and>
      map_of d' ''url'' = Some (PStr ''https://www.google.com''))"
proof -
  let ?d = "[(''url'', PStr ''https://www.google.com''), (''elements'', PRef 1)]"
  let ?xs = "[PRef 2, PRef 3, PRef 4]"
  let ?ex = "[''img'', ''button'', ''link'']"
  have a: "0 < length demo_heap" by (simp add: demo_heap_def)
  have b: "demo_heap ! 0 = PDict ?d" by (simp add: demo_heap_def)
  have c: "input_elements demo_heap ?d = Some ?xs"
    by (simp add: input_elements_def demo_heap_def)
  have d: "\<forall>e \<in> set ?xs. is_dict_ref demo_heap e"
    by (simp add: is_dict_ref_def demo_heap_def)
  have f: "filter (\<lambda>e. \<not> excluded_role demo_heap ?ex e) ?xs = [PRef 3, PRef 4]"
    by (simp add: excluded_role_def demo_heap_def)
  have u: "map_of ?d ''url'' = Some (PStr ''https://www.google.com'')" by simp
  from filter_elements_frame [OF a b c d, of ?ex] obtain h' r l' d' where
    run: "filter_elements demo_heap (PRef 0) ?ex = (Inr (PRef r), h')"
      "take (length demo_heap) h' = demo_heap"
      "length demo_heap \<le> r" "r < length h'" "h' ! r = PDict d'"
      "map_of d' ''elements'' = Some (PRef l')"
      "length demo_heap \<le> l'" "l' < length h'"
      "h' ! l' = PList (filter (\<lambda>e. \<not> excluded_role demo_heap ?ex e) ?xs)"
      "\<forall>k. k \<noteq> ''elements'' \<longrightarrow> map_of d' k = map_of ?d k"
    by blast
  from run(10) have v: "map_of d' ''url'' = Some (PStr ''https://www.google.com'')"
    using u by simp
  have "\<exists>h' r l' d'.
      filter_elements demo_heap (PRef 0) ?ex = (Inr (PRef r), h') \<and>
      take (length demo_heap) h' = demo_heap \<and>
      length demo_heap \<le> r \<and> r < length h' \<and> h' ! r = PDict d' \<and>
      map_of d' ''elements'' = Some (PRef l') \<and>
      length demo_heap \<le> l' \<and> l' < length h' \<and>
      h' ! l' = PList [PRef 3, PRef 4] \<and>
      map_of d' ''url'' = Some (PStr ''https://www.google.com'')"
    using run(1-8) run(9) [unfolded f] v by blast
  moreover have "is_dict_ref demo_heap (PRef 2) \<and> is_dict_ref demo_heap (PRef 3) \<and>
    is_dict_ref demo_heap (PRef 4)" using d by simp
  ultimately show ?thesis using a b c by blast
qed

section \<open>Properties of the locator call and of the scenes\<close>

lemma invoked_append: "invoked (xs @ ys) = invoked xs @ invoked ys"
  by (induction xs rule: invoked.induct) simp_all

lemmas prog_defs = seq_def ret_def raise_def lift_def say_def act_def current_url_def
  try_except_def

lemma map_of_nonempty: "map_of c k = Some v \<Longrightarrow> c \<noteq> []"
  by auto

lemma usable_coords_xy:
  "usable_coordinates result \<longleftrightarrow>
   (\<exists>x y. coords_xy result = Inr (x, y) \<and> x \<noteq> JNull \<and> y \<noteq> JNull)"
  by (auto simp: usable_coordinates_def coords_xy_def get_method_def Let_def
      dest: map_of_nonempty split: json.splits option.splits if_splits)

lemma unusable_coords_xy:
  "\<not> usable_coordinates result \<Longrightarrow>
   (\<exists>e. coords_xy result = Inl e) \<or>
   (\<exists>x y. coords_xy result = Inr (x, y) \<and> (x = JNull \<or> y = JNull))"
  using usable_coords_xy [of result] by (cases "coords_xy result") auto

text \<open>
  Claim C1. When the response has no usable coordinates (the \<open>coordinates\<close> entry is
  missing, null or not a dict, or its \<open>x\<close> or \<open>y\<close> is \<open>None\<close>), the action step of scene 3,
  in the Amazon script and in the Google script, ends by raising, and sends no request to
  the browser: no pointer click is issued and the page is as it was.
\<close>

theorem unusable_decision_not_clicked:
  "\<not> usable_coordinates result \<longrightarrow>
     (\<exists>e w'. amazon_scene3_act drv result w = (Inl e, w') \<and>
        page w' = page w \<and> invoked (events w') = invoked (events w)) \<and>
     (\<exists>e w'. google_scene3_act drv result w = (Inl e, w') \<and>
        page w' = page w \<and> invoked (events w') = invoked (events w))"
proof
  assume "\<not> usable_coordinates result"
  from unusable_coords_xy [OF this]
  show "(\<exists>e w'. amazon_scene3_act drv result w = (Inl e, w') \<and>
        page w' = page w \<and> invoked (events w') = invoked (events w)) \<and>
     (\<exists>e w'. google_scene3_act drv result w = (Inl e, w') \<and>
        page w' = page w \<and> invoked (events w') = invoked (events w))"
    by (auto simp: amazon_scene3_act_def google_scene3_act_def prog_defs invoked_append)
qed


text \<open>
  Claim C5. Let the decision have coordinates \<open>x\<close> and \<open>y\<close>, both not \<open>None\<close>, and let the
  click and the wait after it leave the URL of the page as it was before the click. Then
  scene 3 does not take the click as a success: it prints the warning that the click may
  have failed and requests the same click again; the Google script does not print its
  message of successful navigation.
\<close>

theorem unchanged_url_unconfirmed:
  "(coords_xy result = Inr (x, y) \<and> x \<noteq> JNull \<and> y \<noteq> JNull \<and>
    perform drv (MouseClick x y) (page w) = (None, p1) \<and>
    perform drv (Sleep 5000) p1 = (None, p2) \<and>
    page_url drv p2 = page_url drv (page w) \<longrightarrow>
    (\<exists>r w' rest. amazon_scene3_act drv result w = (r, w') \<and>
       events w' = events w @
         [Invoked (MouseClick x y), Invoked (Sleep 5000),
          Printed ''WARNING: URL did not change - click may have failed'',
          Invoked (MouseClick x y)] @ rest)) \<and>
   (coords_xy result = Inr (x, y) \<and> x \<noteq> JNull \<and> y \<noteq> JNull \<and>
    perform drv (MouseClick x y) (page w) = (None, p1) \<and>
    perform drv (Sleep 3000) p1 = (None, q2) \<and>
    page_url drv q2 = page_url drv (page w) \<longrightarrow>
    (\<exists>r w' rest. google_scene3_act drv result w = (r, w') \<and>
       events w' = events w @
         [Invoked (MouseClick x y), Invoked (Sleep 3000),
          Printed ''WARNING: URL did not change - click may have failed'',
          Invoked (MouseClick x y)] @ rest \<and>
       Printed ''Successfully navigated to result page'' \<notin> set rest))"
proof (intro conjI impI)
  assume a: "coords_xy result = Inr (x, y) \<and> x \<noteq> JNull \<and> y \<noteq> JNull \<and>
    perform drv (MouseClick x y) (page w) = (None, p1) \<and>
    perform drv (Sleep 5000) p1 = (None, p2) \<and>
    page_url drv p2 = page_url drv (page w)"
  obtain r3 p3 where c3: "perform drv (MouseClick x y) p2 = (r3, p3)" by force
  obtain r4 p4 where c4: "perform drv (Sleep 3000) p3 = (r4, p4)" by force
  obtain r5 p5 where c5: "perform drv (LocatorFirstClick product_link_selector) p4 = (r5, p5)"
    by force
  obtain r6 p6 where c6: "perform drv (Sleep 5000) p5 = (r6, p6)" by force
  show "\<exists>r w' rest. amazon_scene3_act drv result w = (r, w') \<and>
       events w' = events w @
         [Invoked (MouseClick x y), Invoked (Sleep 5000),
          Printed ''WARNING: URL did not change - click may have failed'',
          Invoked (MouseClick x y)] @ rest"
    using a c3 c4 c5 c6
    by (cases r3; cases r4; cases r5; cases r6)
      (simp_all add: amazon_scene3_act_def prog_defs)
next
  assume a: "coords_xy result = Inr (x, y) \<and> x \<noteq> JNull \<and> y \<noteq> JNull \<and>
    perform drv (MouseClick x y) (page w) = (None, p1) \<and>
    perform drv (Sleep 3000) p1 = (None, q2) \<and>
    page_url drv q2 = page_url drv (page w)"
  obtain r3 p3 where c3: "perform drv (MouseClick x y) q2 = (r3, p3)" by force
  obtain r4 p4 where c4: "perform drv (Sleep 3000) p3 = (r4, p4)" by force
  show "\<exists>r w' rest. google_scene3_act drv result w = (r, w') \<and>
       events w' = events w @
         [Invoked (MouseClick x y), Invoked (Sleep 3000),
          Printed ''WARNING: URL did not change - click may have failed'',
          Invoked (MouseClick x y)] @ rest \<and>
       Printed ''Successfully navigated to result page'' \<notin> set rest"
    using a c3 c4
    by (cases r3; cases r4)
      (simp_all add: google_scene3_act_def prog_defs)
qed





lemmas analyze_defs = analyze_screenshot_def log_interaction_def Let_def seq_def say_def ret_def


text \<open>
  Claim C3, amended. When the call to the provider raises, \<open>analyze_screenshot\<close> raises the
  same exception to its caller; it has called the provider exactly once (no retry), logged
  no usage record and printed nothing.
\<close>

theorem provider_failure_raised:
  assumes "encode_image ag image_path = Inr b"
    and "create ag (api_calls w)
           \<lparr>req_model = agent_model ag,
            req_prompt = full_prompt task_prompt vw vh,
            req_image = b\<rparr> = Inl e"
  shows "analyze_screenshot ag image_path task_prompt scene_name vw vh w =
           (Inl e, w\<lparr>api_calls := Suc (api_calls w)\<rparr>)"
  using assms by (simp add: analyze_defs)

text \<open>
  Claim C3 as stated fails: with a provider whose call raises a connection error,
  \<open>analyze_screenshot\<close> raises that error instead of returning a value.
\<close>

theorem provider_failure_counterexample:
  "analyze_screenshot failing_agent ''screenshots/vision_scene1_homepage.png''
     ''Identify the search input field on the page.'' ''Scene 1: Find Search Bar'' 1920 1080
     results_page =
   (Inl (ExternalError ''APIConnectionError: Connection error.''),
    results_page\<lparr>api_calls := 1\<rparr>)"
  by (simp add: analyze_defs failing_agent_def results_page_def)


text \<open>
  Claim C4, amended. In scene 1 of the Amazon script a decision that is a dict, whose
  \<open>coordinates\<close> entry is absent or a dict, and in which \<open>x\<close> or \<open>y\<close> is absent or null, ends
  the scene with the exception \<open>Could not find search bar coordinates\<close> before any request
  to the browser. In the SDK script a decision whose \<open>bbox\<close> is absent or false, or a
  non-empty dict in which \<open>x\<close> is absent or null, makes \<open>main\<close> return before \<open>click_rect\<close>.
  The type of a value that is not \<open>None\<close> is not tested.
\<close>

theorem missing_coordinate_fails_scene:
  "(result = JObj d \<and>
    (map_of d ''coordinates'' = None \<and> c = [] \<or> map_of d ''coordinates'' = Some (JObj c)) \<and>
    (map_of c ''x'' = None \<or> map_of c ''x'' = Some JNull \<or>
     map_of c ''y'' = None \<or> map_of c ''y'' = Some JNull) \<longrightarrow>
    amazon_scene1_act drv result w =
      (Inl (Exception ''Could not find search bar coordinates''),
       w\<lparr>events := events w @ [Printed ''ERROR: Vision LLM could not find search bar'']\<rparr>)) \<and>
   (result = JObj d \<and>
    (map_of d ''bbox'' = None \<or>
     (\<exists>v. map_of d ''bbox'' = Some v \<and> \<not> truthy v) \<or>
     (\<exists>bb. map_of d ''bbox'' = Some (JObj bb) \<and> bb \<noteq> [] \<and>
        (map_of bb ''x'' = None \<or> map_of bb ''x'' = Some JNull))) \<longrightarrow>
    sdk_bbox_act drv result w =
      (Inr False,
       w\<lparr>events := events w @ [Printed ''ERROR: LLM did not return valid coordinates'']\<rparr>))"
  by (auto simp: amazon_scene1_act_def sdk_bbox_act_def get_method_def prog_defs)

text \<open>
  Claim C4 as stated fails: a decision whose \<open>x\<close> is the string \<open>left\<close> passes the test of
  scene 1 of the Amazon script, the pointer click is requested with it, and the exception of
  the driver leaves the scene.
\<close>

theorem non_numeric_coordinate_counterexample:
  "amazon_scene1_act strict_driver decision_text results_page =
     (Inl (ExternalError ''mouse.click: expected float''),
      results_page\<lparr>events := [Invoked (MouseClick (JStr ''left'') (JInt 200))]\<rparr>)"
  by (simp add: amazon_scene1_act_def decision_text_def strict_driver_def results_page_def
      get_method_def prog_defs is_number_def)

lemma coords_xy_a: "coords_xy decision_a = Inr (JInt 960, JInt 120)"
  by (simp add: coords_xy_def decision_a_def get_method_def)

theorem unusable_decision_not_clicked_witness:
  "\<not> usable_coordinates decision_null \<and>
   (\<exists>e w'. amazon_scene3_act still_driver decision_null results_page = (Inl e, w') \<and>
      page w' = page results_page \<and> invoked (events w') = invoked (events results_page)) \<and>
   (\<exists>e w'. google_scene3_act still_driver decision_null results_page = (Inl e, w') \<and>
      page w' = page results_page \<and> invoked (events w') = invoked (events results_page))"
proof -
  have h: "\<not> usable_coordinates decision_null"
    by (simp add: usable_coordinates_def decision_null_def)
  show ?thesis
    using unusable_decision_not_clicked [of decision_null still_driver results_page] h
    by blast
qed


theorem provider_failure_raised_witness:
  "analyze_screenshot failing_agent ''screenshots/vision_scene3_search_results.png''
     ''Identify the first product listing element in search results.''
     ''Scene 3: Select Product'' 1920 1080 results_page =
   (Inl (ExternalError ''APIConnectionError: Connection error.''),
    results_page\<lparr>api_calls := Suc (api_calls results_page)\<rparr>)"
proof -
  let ?p = "''screenshots/vision_scene3_search_results.png''"
  let ?t = "''Identify the first product listing element in search results.''"
  have e: "encode_image failing_agent ?p = Inr ''iVBORw0KGgo=''"
    by (simp add: failing_agent_def)
  have c: "create failing_agent (api_calls results_page)
              \<lparr>req_model = agent_model failing_agent,
               req_prompt = full_prompt ?t 1920 1080,
               req_image = ''iVBORw0KGgo=''\<rparr> =
             Inl (ExternalError ''APIConnectionError: Connection error.'')"
    by (simp add: failing_agent_def)
  show ?thesis by (rule provider_failure_raised [OF e c])
qed


theorem missing_coordinate_fails_scene_witness:
  "amazon_scene1_act still_driver decision_null results_page =
     (Inl (Exception ''Could not find search bar coordinates''),
      results_page\<lparr>events := events results_page @
         [Printed ''ERROR: Vision LLM could not find search bar'']\<rparr>) \<and>
   sdk_bbox_act still_driver (JObj [(''bbox'', JObj [(''y'', JInt 5)])]) results_page =
     (Inr False,
      results_page\<lparr>events := events results_page @
         [Printed ''ERROR: LLM did not return valid coordinates'']\<rparr>)"
proof -
  have a: "decision_null = JObj [(''coordinates'', JObj [(''x'', JNull), (''y'', JInt 200)])] \<and>
    (map_of [(''coordinates'', JObj [(''x'', JNull), (''y'', JInt 200)])] ''coordinates'' = None \<and>
       [(''x'', JNull), (''y'', JInt 200)] = [] \<or>
     map_of [(''coordinates'', JObj [(''x'', JNull), (''y'', JInt 200)])] ''coordinates'' =
       Some (JObj [(''x'', JNull), (''y'', JInt 200)])) \<and>
    (map_of [(''x'', JNull), (''y'', JInt 200)] ''x'' = None \<or>
     map_of [(''x'', JNull), (''y'', JInt 200)] ''x'' = Some JNull \<or>
     map_of [(''x'', JNull), (''y'', JInt 200)] ''y'' = None \<or>
     map_of [(''x'', JNull), (''y'', JInt 200)] ''y'' = Some JNull)"
    by (simp add: decision_null_def)
  have b: "\<exists>bb. map_of [(''bbox'', JObj [(''y'', JInt 5)])] ''bbox'' = Some (JObj bb) \<and>
      bb \<noteq> [] \<and> (map_of bb ''x'' = None \<or> map_of bb ''x'' = Some JNull)"
    by simp
  have "amazon_scene1_act still_driver decision_null results_page =
     (Inl (Exception ''Could not find search bar coordinates''),
      results_page\<lparr>events := events results_page @
         [Printed ''ERROR: Vision LLM could not find search bar'']\<rparr>)"
    using missing_coordinate_fails_scene [of decision_null
        "[(''coordinates'', JObj [(''x'', JNull), (''y'', JInt 200)])]"
        "[(''x'', JNull), (''y'', JInt 200)]" still_driver results_page] a
    by blast
  moreover have "sdk_bbox_act still_driver (JObj [(''bbox'', JObj [(''y'', JInt 5)])])
      results_page =
     (Inr False,
      results_page\<lparr>events := events results_page @
         [Printed ''ERROR: LLM did not return valid coordinates'']\<rparr>)"
    using missing_coordinate_fails_scene [of "JObj [(''bbox'', JObj [(''y'', JInt 5)])]"
        "[(''bbox'', JObj [(''y'', JInt 5)])]" _ still_driver results_page] b
    by blast
  ultimately show ?thesis by simp
qed

lemma perform_still: "perform still_driver a p = (None, p)"
  by (simp add: still_driver_def)

theorem unchanged_url_unconfirmed_witness:
  "(\<exists>r w' rest. amazon_scene3_act still_driver decision_a results_page = (r, w') \<and>
       events w' = events results_page @
         [Invoked (MouseClick (JInt 960) (JInt 120)), Invoked (Sleep 5000),
          Printed ''WARNING: URL did not change - click may have failed'',
          Invoked (MouseClick (JInt 960) (JInt 120))] @ rest) \<and>
   (\<exists>r w' rest. google_scene3_act still_driver decision_a results_page = (r, w') \<and>
       events w' = events results_page @
         [Invoked (MouseClick (JInt 960) (JInt 120)), Invoked (Sleep 3000),
          Printed ''WARNING: URL did not change - click may have failed'',
          Invoked (MouseClick (JInt 960) (JInt 120))] @ rest \<and>
       Printed ''Successfully navigated to result page'' \<notin> set rest)"
proof -
  let ?u = "page results_page"
  have h1: "coords_xy decision_a = Inr (JInt 960, JInt 120) \<and> JInt 960 \<noteq> JNull \<and>
    JInt 120 \<noteq> JNull \<and>
    perform still_driver (MouseClick (JInt 960) (JInt 120)) (page results_page) = (None, ?u) \<and>
    perform still_driver (Sleep 5000) ?u = (None, ?u) \<and>
    page_url still_driver ?u = page_url still_driver (page results_page)"
    by (simp add: coords_xy_a perform_still)
  have h2: "coords_xy decision_a = Inr (JInt 960, JInt 120) \<and> JInt 960 \<noteq> JNull \<and>
    JInt 120 \<noteq> JNull \<and>
    perform still_driver (MouseClick (JInt 960) (JInt 120)) (page results_page) = (None, ?u) \<and>
    perform still_driver (Sleep 3000) ?u = (None, ?u) \<and>
    page_url still_driver ?u = page_url still_driver (page results_page)"
    by (simp add: coords_xy_a perform_still)
  show ?thesis
    using unchanged_url_unconfirmed [of decision_a "JInt 960" "JInt 120" still_driver
        results_page ?u ?u ?u] h1 h2
    by blast
qed








end
